theory Spec2Isabelle
  imports Complex_Main
begin

section \<open>Values, errors and dictionaries\<close>

text \<open>
  The program is the single module \<^verbatim>\<open>new.py\<close>. Its numbers are Python floats; they
  are modelled as real numbers, so rounding and overflow are outside that model. The one
  property that speaks of infinite and NaN results is settled on a second translation of
  the engine, over doubles that overflow. The exceptions the code can raise are values of
  the type \<open>error\<close>, and every function that can raise returns \<open>error + 'a\<close> with
  \<open>Inl\<close> for the exception.
\<close>

datatype error = KeyError string | ZeroDivisionError | IndexError | ValueError

text \<open>Sequencing of two computations that may raise: the first exception wins.\<close>

definition bind_r :: "error + 'a \<Rightarrow> ('a \<Rightarrow> error + 'b) \<Rightarrow> error + 'b" where
  "bind_r m f = (case m of Inl e \<Rightarrow> Inl e | Inr v \<Rightarrow> f v)"

text \<open>A parameter dictionary (\<^verbatim>\<open>user_values\<close>, \<^verbatim>\<open>vals\<close>): keys to floats.\<close>

type_synonym assignment = "string \<rightharpoonup> real"

text \<open>\<^verbatim>\<open>d[k]\<close> on a dictionary: a missing key raises \<^verbatim>\<open>KeyError\<close>.\<close>

definition lookup :: "(string \<rightharpoonup> 'v) \<Rightarrow> string \<Rightarrow> error + 'v" where
  "lookup d k = (case d k of None \<Rightarrow> Inl (KeyError k) | Some v \<Rightarrow> Inr v)"

text \<open>\<^verbatim>\<open>a / b\<close> on floats: a zero divisor raises \<^verbatim>\<open>ZeroDivisionError\<close>.\<close>

definition truediv :: "real \<Rightarrow> real \<Rightarrow> error + real" where
  "truediv a b = (if b = 0 then Inl ZeroDivisionError else Inr (a / b))"

section \<open>The valuation engine: \<^verbatim>\<open>calculate_model\<close>\<close>

text \<open>The dictionary \<^verbatim>\<open>calculate_model\<close> returns, one field per key.\<close>

record valuation =
  capex_per_kg :: real
  opex_per_kg :: real
  elec_per_kg :: real
  carbon_tax_per_kg :: real
  lcoh :: real
  money_check :: string
  revenue :: real
  cost :: real
  profit :: real
  npv :: real
  payback :: real
  roi :: real

text \<open>
  \<^verbatim>\<open>calculate_model(vals)\<close>, statement by statement: sixteen dictionary reads in the
  order of the source, the replacement of a non-positive production by \<^verbatim>\<open>1e-9\<close>, the
  cost components, and the two placeholders \<^verbatim>\<open>payback\<close> and \<^verbatim>\<open>roi\<close>, which start at
  \<^verbatim>\<open>0.0\<close> and are overwritten under their guards.
\<close>

definition calculate_model :: "assignment \<Rightarrow> error + valuation" where
  "calculate_model vals =
    bind_r (lookup vals ''capex_mw_yr'') (\<lambda>capex_yr.
    bind_r (lookup vals ''opex_mw_yr'') (\<lambda>opex_yr.
    bind_r (lookup vals ''annual_h2_prod'') (\<lambda>annual_prod0.
    bind_r (lookup vals ''plant_life'') (\<lambda>plant_life.
    bind_r (lookup vals ''discount_rate'') (\<lambda>discount_rate0.
    bind_r (lookup vals ''capacity_factor'') (\<lambda>cap_factor0.
    bind_r (lookup vals ''h2_efficiency_1'') (\<lambda>eff1.
    bind_r (lookup vals ''h2_efficiency_2'') (\<lambda>eff2.
    bind_r (lookup vals ''electricity_cost'') (\<lambda>elec_cost.
    bind_r (lookup vals ''crf'') (\<lambda>crf.
    bind_r (lookup vals ''dcf_factor'') (\<lambda>dcf_factor.
    bind_r (lookup vals ''h2_selling_price'') (\<lambda>h2_price.
    bind_r (lookup vals ''carbon_tax'') (\<lambda>carbon_tax_ton.
    bind_r (lookup vals ''tax_credit'') (\<lambda>tax_credit.
    bind_r (lookup vals ''h2_storage_cost'') (\<lambda>storage_cost.
    bind_r (lookup vals ''h2_transport_cost'') (\<lambda>transport_cost.
    let discount_rate = discount_rate0 / 100;
        cap_factor = cap_factor0 / 100;
        annual_prod = (if annual_prod0 \<le> 0 then 1 / 10 ^ 9 else annual_prod0)
    in
    bind_r (truediv (capex_yr * crf) annual_prod) (\<lambda>capex_per_kg.
    bind_r (truediv opex_yr annual_prod) (\<lambda>opex_per_kg.
    let elec_per_kg = (eff1 + eff2) * (elec_cost / 1000);
        carbon_tax_per_kg = carbon_tax_ton / 1000;
        lcoh = capex_per_kg + opex_per_kg + elec_per_kg + carbon_tax_per_kg
               + storage_cost + transport_cost - tax_credit;
        money_check = (if lcoh < h2_price then ''Money'' else ''No Money'');
        revenue = h2_price * annual_prod;
        total_cost = lcoh * annual_prod;
        profit = revenue - total_cost;
        npv = profit * dcf_factor
    in
    bind_r (if total_cost \<noteq> 0
            then bind_r (truediv profit total_cost) (\<lambda>q. Inr (q * 100))
            else Inr 0) (\<lambda>roi.
    let payback = (if profit > 0 then 5 else 0)
    in
    Inr \<lparr> capex_per_kg = capex_per_kg, opex_per_kg = opex_per_kg,
          elec_per_kg = elec_per_kg, carbon_tax_per_kg = carbon_tax_per_kg,
          lcoh = lcoh, money_check = money_check,
          revenue = revenue, cost = total_cost, profit = profit, npv = npv,
          payback = payback, roi = roi \<rparr>)))))))))))))))))))"

text \<open>The keys \<^verbatim>\<open>calculate_model\<close> reads, in the order it reads them.\<close>

definition engine_keys :: "string list" where
  "engine_keys =
    [''capex_mw_yr'', ''opex_mw_yr'', ''annual_h2_prod'', ''plant_life'',
     ''discount_rate'', ''capacity_factor'', ''h2_efficiency_1'', ''h2_efficiency_2'',
     ''electricity_cost'', ''crf'', ''dcf_factor'', ''h2_selling_price'',
     ''carbon_tax'', ''tax_credit'', ''h2_storage_cost'', ''h2_transport_cost'']"

text \<open>A complete assignment has a value for every key the engine reads.\<close>

definition complete :: "assignment \<Rightarrow> bool" where
  "complete vals = list_all (\<lambda>k. vals k \<noteq> None) engine_keys"

text \<open>The spec's \<open>feasible\<close> flag is the \<^verbatim>\<open>"Money"\<close> value of \<^verbatim>\<open>money_check\<close>.\<close>

definition feasible :: "valuation \<Rightarrow> bool" where
  "feasible r = (money_check r = ''Money'')"

section \<open>The parameter registry and the session inputs\<close>

text \<open>One entry of the list \<^verbatim>\<open>parameters\<close>.\<close>

record parameter =
  key :: string
  label :: string
  default_value :: real
  min_value :: real
  max_value :: real
  in_optimization :: bool

definition parameters :: "parameter list" where
  "parameters = [
    \<lparr> key = ''capex_mw_yr'', label = ''CAPEX [$/Mw/yr]'', default_value = 3242,
      min_value = 0, max_value = 999999999, in_optimization = True \<rparr>,
    \<lparr> key = ''opex_mw_yr'', label = ''OPEX [$/Mw/yr]'', default_value = 90000,
      min_value = 0, max_value = 999999999, in_optimization = True \<rparr>,
    \<lparr> key = ''annual_h2_prod'', label = ''Annual H2 Production [Kg/yr]'', default_value = 876000,
      min_value = 0, max_value = 999999999, in_optimization = False \<rparr>,
    \<lparr> key = ''plant_size_mw'', label = ''Plant Size [Mw]'', default_value = 100,
      min_value = 0, max_value = 999999, in_optimization = False \<rparr>,
    \<lparr> key = ''plant_life'', label = ''Plant Lifetime [yr]'', default_value = 20,
      min_value = 1, max_value = 30, in_optimization = False \<rparr>,
    \<lparr> key = ''discount_rate'', label = ''Discount rate [%]'', default_value = 5,
      min_value = 0, max_value = 15, in_optimization = False \<rparr>,
    \<lparr> key = ''capacity_factor'', label = ''Capacity Factor [%]'', default_value = 90,
      min_value = 0, max_value = 100, in_optimization = True \<rparr>,
    \<lparr> key = ''h2_efficiency_1'', label = ''H2 Efficiency [kWh/kg] (1)'', default_value = 50,
      min_value = 0, max_value = 9999, in_optimization = False \<rparr>,
    \<lparr> key = ''h2_efficiency_2'', label = ''H2 Efficiency [kWh/kg] (2)'', default_value = 70,
      min_value = 0, max_value = 9999, in_optimization = False \<rparr>,
    \<lparr> key = ''electricity_cost'', label = ''Electricity Cost [$/Mwh]'', default_value = 3,
      min_value = 1, max_value = 700, in_optimization = True \<rparr>,
    \<lparr> key = ''crf'', label = ''CRF'', default_value = 0.094392926,
      min_value = 0, max_value = 1, in_optimization = False \<rparr>,
    \<lparr> key = ''dcf_factor'', label = ''DCF factor'', default_value = 10.59401425,
      min_value = 0, max_value = 999999, in_optimization = False \<rparr>,
    \<lparr> key = ''h2_selling_price'', label = ''H2 Selling Price [$/kg]'', default_value = 3.5,
      min_value = 0, max_value = 999999, in_optimization = True \<rparr>,
    \<lparr> key = ''carbon_tax'', label = ''Carbon Tax [$/ton co2]'', default_value = 0,
      min_value = 0, max_value = 999999, in_optimization = True \<rparr>,
    \<lparr> key = ''tax_credit'', label = ''Tax Credit [$/kgH2]'', default_value = 0,
      min_value = 0, max_value = 999999, in_optimization = True \<rparr>,
    \<lparr> key = ''h2_storage_cost'', label = ''Hydrogen Storage Cost [$/kg]'', default_value = 1,
      min_value = 1, max_value = 700, in_optimization = False \<rparr>,
    \<lparr> key = ''h2_transport_cost'', label = ''Hydrogen Transportation Cost [$/kg]'', default_value = 0,
      min_value = 0, max_value = 999999, in_optimization = False \<rparr> ]"

text \<open>One entry of \<^verbatim>\<open>opt_flags\<close>: the keys \<^verbatim>\<open>"min"\<close>, \<^verbatim>\<open>"max"\<close> and \<^verbatim>\<open>"in_opt"\<close>.\<close>

record opt_flag =
  min_v :: real
  max_v :: real
  in_opt :: bool

text \<open>
  What the four widgets of a table row hold when the script runs: the value, the minimum,
  the maximum and the check box. The user edits them freely; on the first run they hold
  the registry's entries.
\<close>

type_synonym widgets = "parameter \<Rightarrow> real \<times> real \<times> real \<times> bool"

definition initial_widgets :: widgets where
  "initial_widgets param =
    (default_value param, min_value param, max_value param, in_optimization param)"

text \<open>
  The loop over \<^verbatim>\<open>parameters\<close> that fills the two dictionaries \<^verbatim>\<open>user_values\<close> and
  \<^verbatim>\<open>opt_flags\<close>, one key per row.
\<close>

definition read_row ::
  "widgets \<Rightarrow> parameter \<Rightarrow> assignment \<times> (string \<rightharpoonup> opt_flag)
    \<Rightarrow> assignment \<times> (string \<rightharpoonup> opt_flag)" where
  "read_row w param st =
    (case w param of (val, mn, mx, io) \<Rightarrow>
      ((fst st)(key param \<mapsto> val),
       (snd st)(key param \<mapsto> \<lparr> min_v = mn, max_v = mx, in_opt = io \<rparr>)))"

definition read_inputs :: "widgets \<Rightarrow> assignment \<times> (string \<rightharpoonup> opt_flag)" where
  "read_inputs w = fold (read_row w) parameters (Map.empty, Map.empty)"

definition default_user_values :: assignment where
  "default_user_values = fst (read_inputs initial_widgets)"

definition default_opt_flags :: "string \<rightharpoonup> opt_flag" where
  "default_opt_flags = snd (read_inputs initial_widgets)"

section \<open>The optimizer adapter\<close>

text \<open>
  Overlaying candidate values on a copy of the fixed dictionary:
  \<^verbatim>\<open>for i, k in enumerate(dv_keys): new_vals[k] = x[i]\<close>. Reading \<^verbatim>\<open>x[i]\<close> past the end
  of \<^verbatim>\<open>x\<close> raises \<^verbatim>\<open>IndexError\<close>; surplus entries of \<^verbatim>\<open>x\<close> are never read.
\<close>

fun overlay :: "assignment \<Rightarrow> string list \<Rightarrow> real list \<Rightarrow> error + assignment" where
  "overlay new_vals [] x = Inr new_vals"
| "overlay new_vals (k # ks) [] = Inl IndexError"
| "overlay new_vals (k # ks) (v # x) = overlay (new_vals(k \<mapsto> v)) ks x"

text \<open>\<^verbatim>\<open>objective(x, fixed_params, dv_keys)\<close>: the negated NPV of the overlaid dictionary.\<close>

definition objective :: "real list \<Rightarrow> assignment \<Rightarrow> string list \<Rightarrow> error + real" where
  "objective x fixed_params dv_keys =
    bind_r (overlay fixed_params dv_keys x) (\<lambda>new_vals.
    bind_r (calculate_model new_vals) (\<lambda>out.
    Inr (- npv out)))"

text \<open>\<^verbatim>\<open>money_constraint(x, fixed_params, dv_keys)\<close>: selling price minus LCOH.\<close>

definition money_constraint :: "real list \<Rightarrow> assignment \<Rightarrow> string list \<Rightarrow> error + real" where
  "money_constraint x fixed_params dv_keys =
    bind_r (overlay fixed_params dv_keys x) (\<lambda>new_vals.
    bind_r (calculate_model new_vals) (\<lambda>out.
    bind_r (lookup new_vals ''h2_selling_price'') (\<lambda>price.
    Inr (price - lcoh out))))"

text \<open>
  \<^verbatim>\<open>decision_keys\<close>: the keys of the registry, in registry order, whose check box is
  set. Every row's entry of \<^verbatim>\<open>opt_flags\<close> is read.
\<close>

fun select_keys :: "(string \<rightharpoonup> opt_flag) \<Rightarrow> parameter list \<Rightarrow> error + string list" where
  "select_keys opt_flags [] = Inr []"
| "select_keys opt_flags (p # ps) =
    bind_r (lookup opt_flags (key p)) (\<lambda>fl.
    bind_r (select_keys opt_flags ps) (\<lambda>ks.
    Inr (if in_opt fl then key p # ks else ks)))"

definition decision_keys :: "(string \<rightharpoonup> opt_flag) \<Rightarrow> error + string list" where
  "decision_keys opt_flags = select_keys opt_flags parameters"

text \<open>
  The loop that builds the start vector \<^verbatim>\<open>x0\<close> and the list \<^verbatim>\<open>bounds\<close>, one entry per
  decision key.
\<close>

fun start_and_bounds ::
  "assignment \<Rightarrow> (string \<rightharpoonup> opt_flag) \<Rightarrow> string list
    \<Rightarrow> error + (real list \<times> (real \<times> real) list)" where
  "start_and_bounds user_values opt_flags [] = Inr ([], [])"
| "start_and_bounds user_values opt_flags (k # ks) =
    bind_r (lookup user_values k) (\<lambda>v.
    bind_r (lookup opt_flags k) (\<lambda>fl.
    bind_r (start_and_bounds user_values opt_flags ks) (\<lambda>(x0, bounds).
    Inr (v # x0, (min_v fl, max_v fl) # bounds))))"

text \<open>
  The result object of the solver, of which the script reads the fields \<^verbatim>\<open>success\<close> and
  \<^verbatim>\<open>x\<close>, and the type of a solver: from the objective, the start vector, the bounds and
  the constraint functions to a result object or an exception.
\<close>

record optimize_result =
  success :: bool
  res_x :: "real list"

type_synonym solver =
  "(real list \<Rightarrow> error + real) \<Rightarrow> real list \<Rightarrow> (real \<times> real) list
    \<Rightarrow> (real list \<Rightarrow> error + real) list \<Rightarrow> error + optimize_result"

text \<open>
  \<^verbatim>\<open>scipy.optimize.minimize\<close> is library code outside the repository. Given a list of
  bounds, it first converts the list with \<^verbatim>\<open>lb, ub = zip(*bounds)\<close>, and unpacking the
  empty \<^verbatim>\<open>zip\<close> raises \<^verbatim>\<open>ValueError\<close>: an empty list of bounds never reaches the
  numerical method. What the library does with a non-empty list is the parameter
  \<open>core\<close>.
\<close>

definition minimize :: "solver \<Rightarrow> solver" where
  "minimize core fun0 x0 bounds cons =
    (if bounds = [] then Inl ValueError else core fun0 x0 bounds cons)"

text \<open>
  What the page shows after the button \<^verbatim>\<open>Optimize NPV\<close>: the optimized dictionary with its
  valuation, or the message that the optimization failed. There is no test of
  \<^verbatim>\<open>decision_keys\<close> on this path; the only one is on the second tab.
\<close>

datatype outcome = Converged assignment valuation | Failed

definition optimize ::
  "solver \<Rightarrow> bool \<Rightarrow> assignment \<Rightarrow> (string \<rightharpoonup> opt_flag) \<Rightarrow> error + outcome" where
  "optimize core enforce_money user_values opt_flags =
    bind_r (decision_keys opt_flags) (\<lambda>dks.
    bind_r (start_and_bounds user_values opt_flags dks) (\<lambda>(x0, bounds).
    let cons = (if enforce_money
                then [\<lambda>x. money_constraint x user_values dks] else [])
    in
    bind_r (minimize core (\<lambda>x. objective x user_values dks) x0 bounds cons) (\<lambda>res.
    if success res
    then bind_r (overlay user_values dks (res_x res)) (\<lambda>final_params.
         bind_r (calculate_model final_params) (\<lambda>final_res.
         Inr (Converged final_params final_res)))
    else Inr Failed)))"

text \<open>The session in which the user has cleared every check box of the table.\<close>

definition unchecked_widgets :: widgets where
  "unchecked_widgets param = (default_value param, min_value param, max_value param, False)"

definition unchecked_opt_flags :: "string \<rightharpoonup> opt_flag" where
  "unchecked_opt_flags = snd (read_inputs unchecked_widgets)"

section \<open>The sensitivity sweep\<close>

text \<open>
  \<^verbatim>\<open>np.linspace(start, stop, num)\<close> is library code outside the repository; the model
  follows numpy's algorithm: the step is \<^verbatim>\<open>(stop - start) / (num - 1)\<close>, sample \<open>i\<close> is
  \<^verbatim>\<open>i * step + start\<close>, and with more than one sample the last one is overwritten by
  \<^verbatim>\<open>stop\<close>.
\<close>

definition linspace :: "real \<Rightarrow> real \<Rightarrow> nat \<Rightarrow> real list" where
  "linspace start stop num =
    (let step = (stop - start) / real (num - 1);
         y = map (\<lambda>i. real i * step + start) [0..<num]
     in if num > 1 then y[num - 1 := stop] else y)"

text \<open>
  The inner loop of the sweep: for each sample, a copy of \<^verbatim>\<open>user_values\<close> with the single
  key overridden goes through \<^verbatim>\<open>calculate_model\<close>, and the row \<^verbatim>\<open>(ParamValue, NPV)\<close> is
  appended.
\<close>

fun data_rows :: "assignment \<Rightarrow> string \<Rightarrow> real list \<Rightarrow> error + (real \<times> real) list" where
  "data_rows user_values k [] = Inr []"
| "data_rows user_values k (val # steps) =
    bind_r (calculate_model (user_values(k \<mapsto> val))) (\<lambda>out.
    bind_r (data_rows user_values k steps) (\<lambda>rows.
    Inr ((val, npv out) # rows)))"

text \<open>The body of the outer loop for one decision key.\<close>

definition sweep_key ::
  "assignment \<Rightarrow> (string \<rightharpoonup> opt_flag) \<Rightarrow> string \<Rightarrow> error + (real \<times> real) list" where
  "sweep_key user_values opt_flags k =
    bind_r (lookup opt_flags k) (\<lambda>fl.
    let var_min = min_v fl; var_max = max_v fl;
        steps = linspace var_min var_max 20
    in data_rows user_values k steps)"

fun charts ::
  "assignment \<Rightarrow> (string \<rightharpoonup> opt_flag) \<Rightarrow> string list
    \<Rightarrow> error + (string \<times> (real \<times> real) list) list" where
  "charts user_values opt_flags [] = Inr []"
| "charts user_values opt_flags (k # ks) =
    bind_r (sweep_key user_values opt_flags k) (\<lambda>rows.
    bind_r (charts user_values opt_flags ks) (\<lambda>rest.
    Inr ((k, rows) # rest)))"

text \<open>
  The second tab: an information message when no key is selected, otherwise one chart
  per decision key, in order.
\<close>

datatype sweep_view = Info | Charts "(string \<times> (real \<times> real) list) list"

definition sweep ::
  "assignment \<Rightarrow> (string \<rightharpoonup> opt_flag) \<Rightarrow> string list \<Rightarrow> error + sweep_view" where
  "sweep user_values opt_flags dks =
    (if length dks = 0 then Inr Info
     else bind_r (charts user_values opt_flags dks) (\<lambda>cs. Inr (Charts cs)))"

section \<open>The assignment quoted in the specification\<close>

text \<open>
  The thirteen keys of the example in the list of testable properties; the keys
  \<^verbatim>\<open>plant_life\<close>, \<^verbatim>\<open>discount_rate\<close> and \<^verbatim>\<open>capacity_factor\<close> are absent from it.
\<close>

definition quoted_assignment :: assignment where
  "quoted_assignment = map_of
    [(''capex_mw_yr'', 3242), (''opex_mw_yr'', 90000), (''annual_h2_prod'', 876000),
     (''crf'', 0.094392926), (''h2_efficiency_1'', 50), (''h2_efficiency_2'', 70),
     (''electricity_cost'', 3), (''carbon_tax'', 0), (''tax_credit'', 0),
     (''h2_storage_cost'', 1), (''h2_transport_cost'', 0), (''h2_selling_price'', 3.5),
     (''dcf_factor'', 10.59401425)]"

section \<open>Two more assignments\<close>

text \<open>
  A plant that breaks even: the levelized cost is \<open>1024 * 0.5 / 256 + 512 / 256 + 1 = 5\<close>,
  the selling price.
\<close>

definition break_even_values :: assignment where
  "break_even_values = default_user_values
    (''capex_mw_yr'' \<mapsto> 1024, ''crf'' \<mapsto> 0.5, ''annual_h2_prod'' \<mapsto> 256,
     ''opex_mw_yr'' \<mapsto> 512, ''h2_efficiency_1'' \<mapsto> 0, ''h2_efficiency_2'' \<mapsto> 0,
     ''h2_selling_price'' \<mapsto> 5)"

text \<open>
  No production and an operating cost of \<^verbatim>\<open>1e300\<close>, as the sweep of \<^verbatim>\<open>opex_mw_yr\<close> passes
  to \<^verbatim>\<open>calculate_model\<close> when the user has typed that maximum.
\<close>

definition huge_opex_values :: assignment where
  "huge_opex_values = default_user_values
    (''annual_h2_prod'' \<mapsto> 0, ''opex_mw_yr'' \<mapsto> 10 ^ 300)"

section \<open>The valuation engine in overflowing arithmetic\<close>

text \<open>
  A question about infinite and not-a-number results has no meaning over the reals, so
  the engine is translated a second time, over doubles that can be infinite or NaN. An
  arithmetic operation on finite operands overflows to an infinity when its exact result
  reaches the threshold \<open>2^1024 - 2^970\<close> of binary64 (round to nearest), and the
  infinities and NaN combine as IEEE 754 prescribes. Rounding and underflow of finite
  results, and the sign of zero, stay outside the model: a finite result is kept exact.
\<close>

datatype pyfloat = Finite real | PosInf | NegInf | NaN

definition overflow_threshold :: real where
  "overflow_threshold = 2 ^ 1024 - 2 ^ 970"

definition of_exact :: "real \<Rightarrow> pyfloat" where
  "of_exact x =
    (if overflow_threshold \<le> x then PosInf
     else if x \<le> - overflow_threshold then NegInf
     else Finite x)"

fun negative :: "pyfloat \<Rightarrow> bool" where
  "negative (Finite a) = (a < 0)"
| "negative NegInf = True"
| "negative PosInf = False"
| "negative NaN = False"

definition infinity :: "bool \<Rightarrow> pyfloat" where
  "infinity neg = (if neg then NegInf else PosInf)"

fun fl_neg :: "pyfloat \<Rightarrow> pyfloat" where
  "fl_neg (Finite a) = Finite (- a)"
| "fl_neg PosInf = NegInf"
| "fl_neg NegInf = PosInf"
| "fl_neg NaN = NaN"

fun fl_add :: "pyfloat \<Rightarrow> pyfloat \<Rightarrow> pyfloat" where
  "fl_add (Finite a) (Finite b) = of_exact (a + b)"
| "fl_add NaN y = NaN"
| "fl_add x NaN = NaN"
| "fl_add PosInf NegInf = NaN"
| "fl_add NegInf PosInf = NaN"
| "fl_add PosInf y = PosInf"
| "fl_add NegInf y = NegInf"
| "fl_add x PosInf = PosInf"
| "fl_add x NegInf = NegInf"

definition fl_sub :: "pyfloat \<Rightarrow> pyfloat \<Rightarrow> pyfloat" where
  "fl_sub x y = fl_add x (fl_neg y)"

fun fl_mul :: "pyfloat \<Rightarrow> pyfloat \<Rightarrow> pyfloat" where
  "fl_mul (Finite a) (Finite b) = of_exact (a * b)"
| "fl_mul NaN y = NaN"
| "fl_mul x NaN = NaN"
| "fl_mul x y =
    (if x = Finite 0 \<or> y = Finite 0 then NaN else infinity (negative x \<noteq> negative y))"

text \<open>The quotient of IEEE 754 for a divisor other than zero.\<close>

fun fl_quot :: "pyfloat \<Rightarrow> pyfloat \<Rightarrow> pyfloat" where
  "fl_quot (Finite a) (Finite b) = of_exact (a / b)"
| "fl_quot NaN y = NaN"
| "fl_quot x NaN = NaN"
| "fl_quot (Finite a) y = Finite 0"
| "fl_quot x (Finite b) = infinity (negative x \<noteq> (b < 0))"
| "fl_quot x y = NaN"

text \<open>\<^verbatim>\<open>a / b\<close> on Python floats: a zero divisor raises, whatever the dividend.\<close>

definition fl_truediv :: "pyfloat \<Rightarrow> pyfloat \<Rightarrow> error + pyfloat" where
  "fl_truediv x y = (if y = Finite 0 then Inl ZeroDivisionError else Inr (fl_quot x y))"

text \<open>Comparisons: every ordered comparison with NaN is false, and NaN differs from all.\<close>

fun fl_less :: "pyfloat \<Rightarrow> pyfloat \<Rightarrow> bool" where
  "fl_less (Finite a) (Finite b) = (a < b)"
| "fl_less NaN y = False"
| "fl_less x NaN = False"
| "fl_less x PosInf = (x \<noteq> PosInf)"
| "fl_less NegInf y = (y \<noteq> NegInf)"
| "fl_less x y = False"

definition fl_le :: "pyfloat \<Rightarrow> pyfloat \<Rightarrow> bool" where
  "fl_le x y = (fl_less x y \<or> (x = y \<and> x \<noteq> NaN))"

definition fl_ne :: "pyfloat \<Rightarrow> pyfloat \<Rightarrow> bool" where
  "fl_ne x y = (x = NaN \<or> y = NaN \<or> x \<noteq> y)"

text \<open>The values of the dictionary are finite doubles.\<close>

definition lookup_float :: "assignment \<Rightarrow> string \<Rightarrow> error + pyfloat" where
  "lookup_float vals k = bind_r (lookup vals k) (\<lambda>v. Inr (Finite v))"

record float_valuation =
  capex_per_kg_f :: pyfloat
  opex_per_kg_f :: pyfloat
  elec_per_kg_f :: pyfloat
  carbon_tax_per_kg_f :: pyfloat
  lcoh_f :: pyfloat
  money_check_f :: string
  revenue_f :: pyfloat
  cost_f :: pyfloat
  profit_f :: pyfloat
  npv_f :: pyfloat
  payback_f :: pyfloat
  roi_f :: pyfloat

text \<open>
  \<^verbatim>\<open>calculate_model(vals)\<close> again, statement by statement, with every operator of the
  source replaced by its counterpart on \<open>pyfloat\<close>; the sum for \<^verbatim>\<open>lcoh\<close> associates to the
  left as Python evaluates it.
\<close>

definition calculate_model_fl :: "assignment \<Rightarrow> error + float_valuation" where
  "calculate_model_fl vals =
    bind_r (lookup_float vals ''capex_mw_yr'') (\<lambda>capex_yr.
    bind_r (lookup_float vals ''opex_mw_yr'') (\<lambda>opex_yr.
    bind_r (lookup_float vals ''annual_h2_prod'') (\<lambda>annual_prod0.
    bind_r (lookup_float vals ''plant_life'') (\<lambda>plant_life.
    bind_r (lookup_float vals ''discount_rate'') (\<lambda>discount_rate0.
    bind_r (lookup_float vals ''capacity_factor'') (\<lambda>cap_factor0.
    bind_r (lookup_float vals ''h2_efficiency_1'') (\<lambda>eff1.
    bind_r (lookup_float vals ''h2_efficiency_2'') (\<lambda>eff2.
    bind_r (lookup_float vals ''electricity_cost'') (\<lambda>elec_cost.
    bind_r (lookup_float vals ''crf'') (\<lambda>crf.
    bind_r (lookup_float vals ''dcf_factor'') (\<lambda>dcf_factor.
    bind_r (lookup_float vals ''h2_selling_price'') (\<lambda>h2_price.
    bind_r (lookup_float vals ''carbon_tax'') (\<lambda>carbon_tax_ton.
    bind_r (lookup_float vals ''tax_credit'') (\<lambda>tax_credit.
    bind_r (lookup_float vals ''h2_storage_cost'') (\<lambda>storage_cost.
    bind_r (lookup_float vals ''h2_transport_cost'') (\<lambda>transport_cost.
    bind_r (fl_truediv discount_rate0 (Finite 100)) (\<lambda>discount_rate.
    bind_r (fl_truediv cap_factor0 (Finite 100)) (\<lambda>cap_factor.
    let annual_prod = (if fl_le annual_prod0 (Finite 0) then Finite (1 / 10 ^ 9)
                       else annual_prod0)
    in
    bind_r (fl_truediv (fl_mul capex_yr crf) annual_prod) (\<lambda>capex_per_kg.
    bind_r (fl_truediv opex_yr annual_prod) (\<lambda>opex_per_kg.
    bind_r (fl_truediv elec_cost (Finite 1000)) (\<lambda>elec_cost_kwh.
    bind_r (fl_truediv carbon_tax_ton (Finite 1000)) (\<lambda>carbon_tax_per_kg.
    let elec_per_kg = fl_mul (fl_add eff1 eff2) elec_cost_kwh;
        lcoh = fl_sub (fl_add (fl_add (fl_add (fl_add (fl_add
                 capex_per_kg opex_per_kg) elec_per_kg) carbon_tax_per_kg)
                 storage_cost) transport_cost) tax_credit;
        money_check = (if fl_less lcoh h2_price then ''Money'' else ''No Money'');
        revenue = fl_mul h2_price annual_prod;
        total_cost = fl_mul lcoh annual_prod;
        profit = fl_sub revenue total_cost;
        npv = fl_mul profit dcf_factor
    in
    bind_r (if fl_ne total_cost (Finite 0)
            then bind_r (fl_truediv profit total_cost) (\<lambda>q. Inr (fl_mul q (Finite 100)))
            else Inr (Finite 0)) (\<lambda>roi.
    let payback = (if fl_less (Finite 0) profit then Finite 5 else Finite 0)
    in
    Inr \<lparr> capex_per_kg_f = capex_per_kg, opex_per_kg_f = opex_per_kg,
          elec_per_kg_f = elec_per_kg, carbon_tax_per_kg_f = carbon_tax_per_kg,
          lcoh_f = lcoh, money_check_f = money_check,
          revenue_f = revenue, cost_f = total_cost, profit_f = profit, npv_f = npv,
          payback_f = payback, roi_f = roi \<rparr>)))))))))))))))))))))))"

section \<open>Basic facts\<close>

lemma bind_r_Inr [simp]: "bind_r (Inr v) f = f v"
  by (simp add: bind_r_def)

lemma bind_r_Inl [simp]: "bind_r (Inl e) f = Inl e"
  by (simp add: bind_r_def)

lemma lookup_Some [simp]: "d k = Some v \<Longrightarrow> lookup d k = Inr v"
  by (simp add: lookup_def)

lemma lookup_None [simp]: "d k = None \<Longrightarrow> lookup d k = Inl (KeyError k)"
  by (simp add: lookup_def)

lemma lookup_complete:
  "complete vals \<Longrightarrow> k \<in> set engine_keys \<Longrightarrow> lookup vals k = Inr (the (vals k))"
  by (auto simp: complete_def lookup_def list_all_iff split: option.splits)

lemma truediv_nonzero: "b \<noteq> 0 \<Longrightarrow> truediv a b = Inr (a / b)"
  by (simp add: truediv_def)

lemma complete_upd: "complete vals \<Longrightarrow> complete (vals(k \<mapsto> v))"
  by (simp add: complete_def list_all_iff del: not_None_eq)

lemma calculate_model_complete:
  assumes c: "complete vals"
  defines "p \<equiv> (if the (vals ''annual_h2_prod'') \<le> 0 then 1 / 10 ^ 9
                 else the (vals ''annual_h2_prod''))"
  defines "l \<equiv> the (vals ''capex_mw_yr'') * the (vals ''crf'') / p
               + the (vals ''opex_mw_yr'') / p
               + (the (vals ''h2_efficiency_1'') + the (vals ''h2_efficiency_2''))
                 * (the (vals ''electricity_cost'') / 1000)
               + the (vals ''carbon_tax'') / 1000
               + the (vals ''h2_storage_cost'') + the (vals ''h2_transport_cost'')
               - the (vals ''tax_credit'')"
  defines "s \<equiv> the (vals ''h2_selling_price'')"
  shows "calculate_model vals = Inr \<lparr>
      capex_per_kg = the (vals ''capex_mw_yr'') * the (vals ''crf'') / p,
      opex_per_kg = the (vals ''opex_mw_yr'') / p,
      elec_per_kg = (the (vals ''h2_efficiency_1'') + the (vals ''h2_efficiency_2''))
                 * (the (vals ''electricity_cost'') / 1000),
      carbon_tax_per_kg = the (vals ''carbon_tax'') / 1000,
      lcoh = l,
      money_check = (if l < s then ''Money'' else ''No Money''),
      revenue = s * p, cost = l * p, profit = s * p - l * p,
      npv = (s * p - l * p) * the (vals ''dcf_factor''),
      payback = (if s * p - l * p > 0 then 5 else 0),
      roi = (if l * p \<noteq> 0 then (s * p - l * p) / (l * p) * 100 else 0) \<rparr>"
proof -
  have p: "p \<noteq> 0" "p > 0" by (auto simp: p_def)
  have k: "\<And>k. k \<in> set engine_keys \<Longrightarrow> lookup vals k = Inr (the (vals k))"
    using c by (rule lookup_complete)
  show ?thesis
    unfolding calculate_model_def
    using p by (simp add: k engine_keys_def Let_def truediv_nonzero p_def l_def s_def)
qed

lemma calculate_model_total: "complete vals \<Longrightarrow> \<exists>r. calculate_model vals = Inr r"
  by (simp add: calculate_model_complete)



lemma default_user_values_eq:
  "default_user_values = map_of (map (\<lambda>p. (key p, default_value p)) (rev parameters))"
  by (simp add: default_user_values_def read_inputs_def parameters_def read_row_def
      initial_widgets_def)

lemma default_user_values_at:
  "default_user_values ''capex_mw_yr'' = Some 3242"
  "default_user_values ''opex_mw_yr'' = Some 90000"
  "default_user_values ''annual_h2_prod'' = Some 876000"
  "default_user_values ''plant_size_mw'' = Some 100"
  "default_user_values ''plant_life'' = Some 20"
  "default_user_values ''discount_rate'' = Some 5"
  "default_user_values ''capacity_factor'' = Some 90"
  "default_user_values ''h2_efficiency_1'' = Some 50"
  "default_user_values ''h2_efficiency_2'' = Some 70"
  "default_user_values ''electricity_cost'' = Some 3"
  "default_user_values ''crf'' = Some 0.094392926"
  "default_user_values ''dcf_factor'' = Some 10.59401425"
  "default_user_values ''h2_selling_price'' = Some 3.5"
  "default_user_values ''carbon_tax'' = Some 0"
  "default_user_values ''tax_credit'' = Some 0"
  "default_user_values ''h2_storage_cost'' = Some 1"
  "default_user_values ''h2_transport_cost'' = Some 0"
  by (simp_all add: default_user_values_eq parameters_def)

lemma complete_default: "complete default_user_values"
  by (simp add: complete_def engine_keys_def default_user_values_at del: not_None_eq)

lemma first_missing_key:
  "find (\<lambda>k. vals k = None) engine_keys = Some k' \<Longrightarrow> calculate_model vals = Inl (KeyError k')"
  unfolding engine_keys_def
  by (auto simp: calculate_model_def split: if_splits)

section \<open>Properties of the valuation engine\<close>

text \<open>
  C1. For every complete assignment whose \<^verbatim>\<open>annual_h2_prod\<close> is positive,
  \<^verbatim>\<open>calculate_model\<close> returns a result, and the result is the formula set of the
  specification: the four cost components, the LCOH as their sum plus storage and
  transport minus the tax credit, the feasibility flag as \<open>lcoh < h2_selling_price\<close>,
  and revenue, cost, profit and NPV.
\<close>

theorem evaluate_formulas:
  assumes "complete vals" and "0 < the (vals ''annual_h2_prod'')"
  shows "\<exists>r. calculate_model vals = Inr r
    \<and> capex_per_kg r = (the (vals ''capex_mw_yr'') * the (vals ''crf''))
                         / the (vals ''annual_h2_prod'')
    \<and> opex_per_kg r = the (vals ''opex_mw_yr'') / the (vals ''annual_h2_prod'')
    \<and> elec_per_kg r = (the (vals ''h2_efficiency_1'') + the (vals ''h2_efficiency_2''))
                        * (the (vals ''electricity_cost'') / 1000)
    \<and> carbon_tax_per_kg r = the (vals ''carbon_tax'') / 1000
    \<and> lcoh r = capex_per_kg r + opex_per_kg r + elec_per_kg r + carbon_tax_per_kg r
                 + the (vals ''h2_storage_cost'') + the (vals ''h2_transport_cost'')
                 - the (vals ''tax_credit'')
    \<and> feasible r = (lcoh r < the (vals ''h2_selling_price''))
    \<and> revenue r = the (vals ''h2_selling_price'') * the (vals ''annual_h2_prod'')
    \<and> cost r = lcoh r * the (vals ''annual_h2_prod'')
    \<and> profit r = revenue r - cost r
    \<and> npv r = profit r * the (vals ''dcf_factor'')"
  using assms by (simp add: calculate_model_complete feasible_def)

theorem evaluate_formulas_witness:
  "complete default_user_values \<and> 0 < the (default_user_values ''annual_h2_prod'')
   \<and> (\<exists>r. calculate_model default_user_values = Inr r
        \<and> elec_per_kg r = 0.36 \<and> opex_per_kg r = 90000 / 876000
        \<and> revenue r = 3066000 \<and> feasible r)"
proof -
  have c: "complete default_user_values" by (rule complete_default)
  have p: "0 < the (default_user_values ''annual_h2_prod'')"
    by (simp add: default_user_values_at)
  from evaluate_formulas [OF c p] obtain r where
    "calculate_model default_user_values = Inr r"
    "capex_per_kg r = 3242 * 0.094392926 / 876000"
    "opex_per_kg r = 90000 / 876000"
    "elec_per_kg r = (50 + 70) * (3 / 1000)"
    "carbon_tax_per_kg r = 0"
    "lcoh r = capex_per_kg r + opex_per_kg r + elec_per_kg r + carbon_tax_per_kg r + 1 + 0 - 0"
    "feasible r = (lcoh r < 3.5)"
    "revenue r = 3.5 * 876000"
    by (auto simp: default_user_values_at)
  then show ?thesis using c p by simp
qed

text \<open>
  C5. Two complete assignments that agree on every key other than
  \<^verbatim>\<open>discount_rate\<close> and \<^verbatim>\<open>capacity_factor\<close> have the same result of \<^verbatim>\<open>calculate_model\<close>.
\<close>

theorem unused_rate_and_capacity:
  assumes "complete v1" and "complete v2"
    and "\<forall>k. k \<noteq> ''discount_rate'' \<and> k \<noteq> ''capacity_factor'' \<longrightarrow> v1 k = v2 k"
  shows "calculate_model v1 = calculate_model v2"
  using assms by (simp add: calculate_model_complete)

theorem unused_rate_and_capacity_witness:
  "complete default_user_values
   \<and> complete (default_user_values(''discount_rate'' \<mapsto> 12, ''capacity_factor'' \<mapsto> 40))
   \<and> calculate_model default_user_values
       = calculate_model (default_user_values(''discount_rate'' \<mapsto> 12, ''capacity_factor'' \<mapsto> 40))"
proof -
  have c1: "complete default_user_values" by (rule complete_default)
  have c2: "complete (default_user_values(''discount_rate'' \<mapsto> 12, ''capacity_factor'' \<mapsto> 40))"
    by (intro complete_upd complete_default)
  have a: "\<forall>k. k \<noteq> ''discount_rate'' \<and> k \<noteq> ''capacity_factor'' \<longrightarrow>
    default_user_values k = (default_user_values(''discount_rate'' \<mapsto> 12, ''capacity_factor'' \<mapsto> 40)) k"
    by simp
  show ?thesis using unused_rate_and_capacity [OF c1 c2 a] c1 c2 by blast
qed

text \<open>
  C10. Two complete assignments that agree on every key other than
  \<^verbatim>\<open>plant_size_mw\<close> and \<^verbatim>\<open>plant_life\<close> have the same result of \<^verbatim>\<open>calculate_model\<close>.
  Completeness does not mention \<^verbatim>\<open>plant_size_mw\<close>, which the engine never reads.
\<close>

theorem unused_size_and_life:
  assumes "complete v1" and "complete v2"
    and "\<forall>k. k \<noteq> ''plant_size_mw'' \<and> k \<noteq> ''plant_life'' \<longrightarrow> v1 k = v2 k"
  shows "calculate_model v1 = calculate_model v2"
  using assms by (simp add: calculate_model_complete)

theorem unused_size_and_life_witness:
  "complete default_user_values
   \<and> complete (default_user_values(''plant_size_mw'' \<mapsto> 250, ''plant_life'' \<mapsto> 30))
   \<and> calculate_model default_user_values
       = calculate_model (default_user_values(''plant_size_mw'' \<mapsto> 250, ''plant_life'' \<mapsto> 30))"
proof -
  have c1: "complete default_user_values" by (rule complete_default)
  have c2: "complete (default_user_values(''plant_size_mw'' \<mapsto> 250, ''plant_life'' \<mapsto> 30))"
    by (intro complete_upd complete_default)
  have a: "\<forall>k. k \<noteq> ''plant_size_mw'' \<and> k \<noteq> ''plant_life'' \<longrightarrow>
    default_user_values k = (default_user_values(''plant_size_mw'' \<mapsto> 250, ''plant_life'' \<mapsto> 30)) k"
    by simp
  show ?thesis using unused_size_and_life [OF c1 c2 a] c1 c2 by blast
qed

lemma break_even_values_at:
  "break_even_values ''capex_mw_yr'' = Some 1024"
  "break_even_values ''opex_mw_yr'' = Some 512"
  "break_even_values ''annual_h2_prod'' = Some 256"
  "break_even_values ''plant_life'' = Some 20"
  "break_even_values ''discount_rate'' = Some 5"
  "break_even_values ''capacity_factor'' = Some 90"
  "break_even_values ''h2_efficiency_1'' = Some 0"
  "break_even_values ''h2_efficiency_2'' = Some 0"
  "break_even_values ''electricity_cost'' = Some 3"
  "break_even_values ''crf'' = Some 0.5"
  "break_even_values ''dcf_factor'' = Some 10.59401425"
  "break_even_values ''h2_selling_price'' = Some 5"
  "break_even_values ''carbon_tax'' = Some 0"
  "break_even_values ''tax_credit'' = Some 0"
  "break_even_values ''h2_storage_cost'' = Some 1"
  "break_even_values ''h2_transport_cost'' = Some 0"
  by (simp_all add: break_even_values_def default_user_values_at)

lemma complete_break_even: "complete break_even_values"
  by (simp add: complete_def engine_keys_def break_even_values_at del: not_None_eq)

text \<open>
  C7, as stated. Read as an equivalence, the claim fails at break-even: a plant whose
  levelized cost equals the selling price has a cost of 1280, a profit of 0 and hence an
  \<^verbatim>\<open>roi\<close> of 0, with a cost that is not 0.
\<close>

theorem roi_zero_at_break_even:
  "calculate_model break_even_values =
    Inr \<lparr> capex_per_kg = 2, opex_per_kg = 2, elec_per_kg = 0, carbon_tax_per_kg = 0,
          lcoh = 5, money_check = ''No Money'', revenue = 1280, cost = 1280, profit = 0,
          npv = 0, payback = 0, roi = 0 \<rparr>"
  by (simp add: calculate_model_complete [OF complete_break_even] break_even_values_at)

text \<open>
  C7, amended. For every complete assignment the result's \<^verbatim>\<open>roi\<close> is \<open>0\<close> when the
  cost is \<open>0\<close> and \<open>profit / cost * 100\<close> otherwise, so it is \<open>0\<close> exactly when the cost
  or the profit is \<open>0\<close>; the division is only reached with a non-zero cost, so no
  \<^verbatim>\<open>ZeroDivisionError\<close> comes out of it.
\<close>

theorem roi_guarded:
  assumes "complete vals"
  shows "\<exists>r. calculate_model vals = Inr r
    \<and> roi r = (if cost r = 0 then 0 else (profit r / cost r) * 100)
    \<and> (roi r = 0) = (cost r = 0 \<or> profit r = 0)"
proof -
  from assms have "\<exists>r. calculate_model vals = Inr r
    \<and> roi r = (if cost r = 0 then 0 else (profit r / cost r) * 100)"
    by (simp add: calculate_model_complete)
  then obtain r where c: "calculate_model vals = Inr r"
    and g: "roi r = (if cost r = 0 then 0 else (profit r / cost r) * 100)" by blast
  from g have "(roi r = 0) = (cost r = 0 \<or> profit r = 0)" by auto
  with c g show ?thesis by blast
qed

theorem roi_guarded_witness:
  "complete default_user_values
   \<and> (\<exists>r. calculate_model default_user_values = Inr r
        \<and> roi r = (if cost r = 0 then 0 else (profit r / cost r) * 100)
        \<and> (roi r = 0) = (cost r = 0 \<or> profit r = 0))"
  using roi_guarded [OF complete_default] complete_default by blast

text \<open>
  C8. For every complete assignment the result's \<^verbatim>\<open>payback\<close> is \<open>5\<close> when the
  profit is positive and \<open>0\<close> otherwise.
\<close>

theorem payback_two_valued:
  assumes "complete vals"
  shows "\<exists>r. calculate_model vals = Inr r
    \<and> payback r = (if profit r > 0 then 5 else 0)"
  using assms by (simp add: calculate_model_complete)

theorem payback_two_valued_witness:
  "complete default_user_values
   \<and> (\<exists>r. calculate_model default_user_values = Inr r
        \<and> payback r = (if profit r > 0 then 5 else 0))"
  using payback_two_valued [OF complete_default] complete_default by blast

text \<open>
  C9. An assignment that lacks a key the engine reads makes \<^verbatim>\<open>calculate_model\<close>
  raise \<^verbatim>\<open>KeyError\<close> instead of returning a result; the key reported is the first
  missing one in the order of the reads.
\<close>

theorem missing_key_raises:
  assumes "k \<in> set engine_keys" and "vals k = None"
  shows "\<exists>k'. find (\<lambda>k. vals k = None) engine_keys = Some k'
               \<and> calculate_model vals = Inl (KeyError k')"
proof (cases "find (\<lambda>k. vals k = None) engine_keys")
  case None
  with assms show ?thesis by (auto simp: find_None_iff)
next
  case (Some k')
  then show ?thesis by (simp add: first_missing_key)
qed

theorem missing_key_raises_witness:
  "''plant_life'' \<in> set engine_keys
   \<and> (default_user_values(''plant_life'' := None)) ''plant_life'' = None
   \<and> calculate_model (default_user_values(''plant_life'' := None))
       = Inl (KeyError ''plant_life'')"
proof -
  have m: "''plant_life'' \<in> set engine_keys" by (simp add: engine_keys_def)
  have v: "(default_user_values(''plant_life'' := None)) ''plant_life'' = None" by simp
  have fd: "find (\<lambda>k. (default_user_values(''plant_life'' := None)) k = None) engine_keys
      = Some ''plant_life''"
    by (simp add: engine_keys_def default_user_values_at)
  from missing_key_raises [of "''plant_life''" "default_user_values(''plant_life'' := None)", OF m v] fd
  have "calculate_model (default_user_values(''plant_life'' := None))
       = Inl (KeyError ''plant_life'')" by simp
  then show ?thesis using m v by blast
qed

section \<open>The division guard in overflowing arithmetic\<close>

lemma lookup_float_complete:
  "complete vals \<Longrightarrow> k \<in> set engine_keys \<Longrightarrow> lookup_float vals k = Inr (Finite (the (vals k)))"
  by (simp add: lookup_float_def lookup_complete)

lemma fl_truediv_Finite: "b \<noteq> 0 \<Longrightarrow> fl_truediv x (Finite b) = Inr (fl_quot x (Finite b))"
  by (simp add: fl_truediv_def)

lemma fl_ne_zero: "fl_ne x (Finite 0) = (x \<noteq> Finite 0)"
  by (auto simp: fl_ne_def)

lemma roi_never_raises:
  "bind_r (if fl_ne tc (Finite 0)
           then bind_r (fl_truediv pr tc) (\<lambda>q. Inr (fl_mul q (Finite 100)))
           else Inr (Finite 0)) g
   = g (if tc = Finite 0 then Finite 0 else fl_mul (fl_quot pr tc) (Finite 100))"
  by (simp add: fl_ne_zero fl_truediv_def)

lemma overflow_threshold_pos: "0 < overflow_threshold"
  by (simp add: overflow_threshold_def)

lemma of_exact_Finite: "\<bar>x\<bar> < overflow_threshold \<Longrightarrow> of_exact x = Finite x"
  by (auto simp: of_exact_def)

lemma of_exact_not_NaN: "of_exact x \<noteq> NaN"
  by (simp add: of_exact_def)

lemma fl_quot_of_exact_not_NaN: "fl_quot (of_exact x) (Finite b) \<noteq> NaN"
  by (simp add: of_exact_def infinity_def)

lemma calculate_model_fl_complete:
  assumes c: "complete vals"
  defines "p \<equiv> (if the (vals ''annual_h2_prod'') \<le> 0 then 1 / 10 ^ 9
                 else the (vals ''annual_h2_prod''))"
  shows "\<exists>r. calculate_model_fl vals = Inr r
    \<and> capex_per_kg_f r
        = fl_quot (of_exact (the (vals ''capex_mw_yr'') * the (vals ''crf''))) (Finite p)
    \<and> opex_per_kg_f r = of_exact (the (vals ''opex_mw_yr'') / p)"
proof -
  have p: "p \<noteq> 0" by (auto simp: p_def)
  have k: "\<And>k. k \<in> set engine_keys \<Longrightarrow> lookup_float vals k = Inr (Finite (the (vals k)))"
    using c by (rule lookup_float_complete)
  have a: "(if fl_le (Finite (the (vals ''annual_h2_prod''))) (Finite 0)
            then Finite (1 / 10 ^ 9) else Finite (the (vals ''annual_h2_prod''))) = Finite p"
    by (simp add: fl_le_def p_def)
  show ?thesis
    unfolding calculate_model_fl_def
    using p by (simp add: k engine_keys_def a fl_truediv_Finite roi_never_raises Let_def)
qed

lemma huge_opex_values_at:
  "huge_opex_values ''capex_mw_yr'' = Some 3242"
  "huge_opex_values ''opex_mw_yr'' = Some (10 ^ 300)"
  "huge_opex_values ''annual_h2_prod'' = Some 0"
  "huge_opex_values ''plant_life'' = Some 20"
  "huge_opex_values ''discount_rate'' = Some 5"
  "huge_opex_values ''capacity_factor'' = Some 90"
  "huge_opex_values ''h2_efficiency_1'' = Some 50"
  "huge_opex_values ''h2_efficiency_2'' = Some 70"
  "huge_opex_values ''electricity_cost'' = Some 3"
  "huge_opex_values ''crf'' = Some 0.094392926"
  "huge_opex_values ''dcf_factor'' = Some 10.59401425"
  "huge_opex_values ''h2_selling_price'' = Some 3.5"
  "huge_opex_values ''carbon_tax'' = Some 0"
  "huge_opex_values ''tax_credit'' = Some 0"
  "huge_opex_values ''h2_storage_cost'' = Some 1"
  "huge_opex_values ''h2_transport_cost'' = Some 0"
  by (simp_all add: huge_opex_values_def default_user_values_at)

text \<open>
  C2, as stated. With no production and an operating cost of \<^verbatim>\<open>1e300\<close> the quotient
  \<^verbatim>\<open>opex_yr / annual_prod\<close> is \<open>10^309\<close>, beyond the largest double: \<^verbatim>\<open>opex_per_kg\<close> is
  infinite, and so are \<^verbatim>\<open>lcoh\<close> and the cost, and \<^verbatim>\<open>roi\<close> is NaN. Nothing is raised.
\<close>

theorem huge_opex_overflows:
  "calculate_model_fl huge_opex_values =
    Inr \<lparr> capex_per_kg_f = Finite 306021866092, opex_per_kg_f = PosInf,
          elec_per_kg_f = Finite 0.36, carbon_tax_per_kg_f = Finite 0,
          lcoh_f = PosInf, money_check_f = ''No Money'',
          revenue_f = Finite (3.5 / 10 ^ 9), cost_f = PosInf, profit_f = NegInf,
          npv_f = NegInf, payback_f = Finite 0, roi_f = NaN \<rparr>"
  by (simp add: calculate_model_fl_def lookup_float_def lookup_def huge_opex_values_at
      fl_truediv_def fl_le_def fl_ne_def fl_sub_def of_exact_def
      overflow_threshold_def infinity_def Let_def)

text \<open>
  C2, amended. For every complete assignment whose \<^verbatim>\<open>annual_h2_prod\<close> is zero or
  negative, \<^verbatim>\<open>calculate_model\<close> raises nothing: \<^verbatim>\<open>1e-9\<close> is the divisor of both
  quotients, and the guarded division of \<^verbatim>\<open>roi\<close> is never by zero. \<^verbatim>\<open>capex_per_kg\<close> and
  \<^verbatim>\<open>opex_per_kg\<close> are never NaN, and they are the finite values
  \<open>capex_mw_yr * crf * 10^9\<close> and \<open>opex_mw_yr * 10^9\<close> whenever these stay below the
  overflow threshold of a double in absolute value.
\<close>

theorem production_guard_in_floats:
  assumes "complete vals" and "the (vals ''annual_h2_prod'') \<le> 0"
  shows "\<exists>r. calculate_model_fl vals = Inr r
    \<and> capex_per_kg_f r
        = fl_quot (of_exact (the (vals ''capex_mw_yr'') * the (vals ''crf'')))
            (Finite (1 / 10 ^ 9))
    \<and> opex_per_kg_f r = of_exact (the (vals ''opex_mw_yr'') / (1 / 10 ^ 9))
    \<and> capex_per_kg_f r \<noteq> NaN \<and> opex_per_kg_f r \<noteq> NaN
    \<and> (\<bar>the (vals ''capex_mw_yr'') * the (vals ''crf'')\<bar> * 10 ^ 9 < overflow_threshold
        \<longrightarrow> capex_per_kg_f r
              = Finite (the (vals ''capex_mw_yr'') * the (vals ''crf'') * 10 ^ 9))
    \<and> (\<bar>the (vals ''opex_mw_yr'')\<bar> * 10 ^ 9 < overflow_threshold
        \<longrightarrow> opex_per_kg_f r = Finite (the (vals ''opex_mw_yr'') * 10 ^ 9))"
proof -
  let ?c = "the (vals ''capex_mw_yr'') * the (vals ''crf'')"
  let ?o = "the (vals ''opex_mw_yr'')"
  from calculate_model_fl_complete [OF assms(1)] assms(2)
  obtain r where r: "calculate_model_fl vals = Inr r"
    and cap: "capex_per_kg_f r = fl_quot (of_exact ?c) (Finite (1 / 10 ^ 9))"
    and op: "opex_per_kg_f r = of_exact (?o / (1 / 10 ^ 9))"
    by auto
  have n1: "capex_per_kg_f r \<noteq> NaN" unfolding cap by (rule fl_quot_of_exact_not_NaN)
  have n2: "opex_per_kg_f r \<noteq> NaN" unfolding op by (rule of_exact_not_NaN)
  have f1: "capex_per_kg_f r = Finite (?c * 10 ^ 9)" if b: "\<bar>?c\<bar> * 10 ^ 9 < overflow_threshold"
  proof -
    have "\<bar>?c\<bar> \<le> \<bar>?c\<bar> * 10 ^ 9" by simp
    with b have "\<bar>?c\<bar> < overflow_threshold" by linarith
    then have "of_exact ?c = Finite ?c" by (rule of_exact_Finite)
    moreover have "\<bar>?c * 10 ^ 9\<bar> < overflow_threshold" using b by (simp add: abs_mult)
    then have "of_exact (?c * 10 ^ 9) = Finite (?c * 10 ^ 9)" by (rule of_exact_Finite)
    ultimately show ?thesis unfolding cap by simp
  qed
  have f2: "opex_per_kg_f r = Finite (?o * 10 ^ 9)" if b: "\<bar>?o\<bar> * 10 ^ 9 < overflow_threshold"
  proof -
    have "\<bar>?o * 10 ^ 9\<bar> < overflow_threshold" using b by (simp add: abs_mult)
    then have "of_exact (?o * 10 ^ 9) = Finite (?o * 10 ^ 9)" by (rule of_exact_Finite)
    then show ?thesis unfolding op by simp
  qed
  show ?thesis using r cap op n1 n2 f1 f2 by blast
qed

theorem production_guard_in_floats_witness:
  "complete (default_user_values(''annual_h2_prod'' \<mapsto> 0))
   \<and> the ((default_user_values(''annual_h2_prod'' \<mapsto> 0)) ''annual_h2_prod'') \<le> 0
   \<and> (\<exists>r. calculate_model_fl (default_user_values(''annual_h2_prod'' \<mapsto> 0)) = Inr r
        \<and> capex_per_kg_f r = Finite (3242 * 0.094392926 * 10 ^ 9)
        \<and> opex_per_kg_f r = Finite (90000 * 10 ^ 9))"
proof -
  let ?v = "default_user_values(''annual_h2_prod'' \<mapsto> 0)"
  have c: "complete ?v" by (rule complete_upd [OF complete_default])
  have p: "the (?v ''annual_h2_prod'') \<le> 0" by simp
  have e: "the (?v ''capex_mw_yr'') = 3242" "the (?v ''crf'') = 0.094392926"
    "the (?v ''opex_mw_yr'') = 90000"
    by (simp_all add: default_user_values_at)
  from production_guard_in_floats [OF c p] obtain r where
    r: "calculate_model_fl ?v = Inr r"
    and cap: "\<bar>the (?v ''capex_mw_yr'') * the (?v ''crf'')\<bar> * 10 ^ 9 < overflow_threshold
        \<longrightarrow> capex_per_kg_f r
              = Finite (the (?v ''capex_mw_yr'') * the (?v ''crf'') * 10 ^ 9)"
    and op: "\<bar>the (?v ''opex_mw_yr'')\<bar> * 10 ^ 9 < overflow_threshold
        \<longrightarrow> opex_per_kg_f r = Finite (the (?v ''opex_mw_yr'') * 10 ^ 9)"
    by blast
  have "capex_per_kg_f r = Finite (3242 * 0.094392926 * 10 ^ 9)"
    using cap unfolding e by (simp add: overflow_threshold_def)
  moreover have "opex_per_kg_f r = Finite (90000 * 10 ^ 9)"
    using op unfolding e by (simp add: overflow_threshold_def)
  ultimately show ?thesis using c p r by blast
qed

section \<open>The example of the specification\<close>

lemma quoted_assignment_at:
  "quoted_assignment ''capex_mw_yr'' = Some 3242"
  "quoted_assignment ''opex_mw_yr'' = Some 90000"
  "quoted_assignment ''annual_h2_prod'' = Some 876000"
  "quoted_assignment ''plant_life'' = None"
  "quoted_assignment ''discount_rate'' = None"
  "quoted_assignment ''capacity_factor'' = None"
  "quoted_assignment ''h2_efficiency_1'' = Some 50"
  "quoted_assignment ''h2_efficiency_2'' = Some 70"
  "quoted_assignment ''electricity_cost'' = Some 3"
  "quoted_assignment ''crf'' = Some 0.094392926"
  "quoted_assignment ''dcf_factor'' = Some 10.59401425"
  "quoted_assignment ''h2_selling_price'' = Some 3.5"
  "quoted_assignment ''carbon_tax'' = Some 0"
  "quoted_assignment ''tax_credit'' = Some 0"
  "quoted_assignment ''h2_storage_cost'' = Some 1"
  "quoted_assignment ''h2_transport_cost'' = Some 0"
  by (simp_all add: quoted_assignment_def)

text \<open>
  C3, as stated. The assignment quoted in the specification has no \<^verbatim>\<open>plant_life\<close>, so
  \<^verbatim>\<open>calculate_model\<close> raises \<^verbatim>\<open>KeyError\<close> on it at the fourth read and yields no
  result.
\<close>

theorem quoted_assignment_is_partial:
  "calculate_model quoted_assignment = Inl (KeyError ''plant_life'')"
  by (simp add: calculate_model_def quoted_assignment_at)

text \<open>
  C3, amended. Once the quoted assignment is completed with any values for
  \<^verbatim>\<open>plant_life\<close>, \<^verbatim>\<open>discount_rate\<close> and \<^verbatim>\<open>capacity_factor\<close>, the result has
  \<^verbatim>\<open>capex_per_kg\<close> within \<open>5e-7\<close> of \<open>0.000349\<close>, \<^verbatim>\<open>opex_per_kg\<close> within \<open>5e-6\<close> of
  \<open>0.10274\<close>, \<^verbatim>\<open>elec_per_kg\<close> equal to \<open>0.36\<close>, \<^verbatim>\<open>lcoh\<close> within \<open>5e-5\<close> of \<open>1.4631\<close>, and
  is feasible.
\<close>

theorem quoted_example_completed:
  "\<exists>r. calculate_model (quoted_assignment(''plant_life'' \<mapsto> pl, ''discount_rate'' \<mapsto> dr,
            ''capacity_factor'' \<mapsto> cf)) = Inr r
     \<and> \<bar>capex_per_kg r - 0.000349\<bar> < 0.0000005
     \<and> \<bar>opex_per_kg r - 0.10274\<bar> < 0.000005
     \<and> elec_per_kg r = 0.36
     \<and> \<bar>lcoh r - 1.4631\<bar> < 0.00005
     \<and> feasible r"
proof -
  let ?v = "quoted_assignment(''plant_life'' \<mapsto> pl, ''discount_rate'' \<mapsto> dr,
            ''capacity_factor'' \<mapsto> cf)"
  have c: "complete ?v"
    by (simp add: complete_def engine_keys_def quoted_assignment_at del: not_None_eq)
  show ?thesis
    by (simp add: calculate_model_complete [OF c] quoted_assignment_at feasible_def)
qed

theorem quoted_example_completed_witness:
  "\<exists>r. calculate_model (quoted_assignment(''plant_life'' \<mapsto> 20, ''discount_rate'' \<mapsto> 5,
            ''capacity_factor'' \<mapsto> 90)) = Inr r
     \<and> \<bar>capex_per_kg r - 0.000349\<bar> < 0.0000005
     \<and> \<bar>opex_per_kg r - 0.10274\<bar> < 0.000005
     \<and> elec_per_kg r = 0.36
     \<and> \<bar>lcoh r - 1.4631\<bar> < 0.00005
     \<and> feasible r"
  by (rule quoted_example_completed [of 20 5 90])

section \<open>Properties of the optimizer adapter\<close>

lemma decision_keys_unchecked: "decision_keys unchecked_opt_flags = Inr []"
  by (simp add: decision_keys_def unchecked_opt_flags_def read_inputs_def parameters_def
      read_row_def unchecked_widgets_def)

text \<open>
  C4. With an empty decision set the start vector and the list of bounds are empty,
  and the script passes them to the solver without a test; the library raises
  \<^verbatim>\<open>ValueError\<close> on the empty list of bounds, whatever its numerical method would do. The
  page shows that exception, not the valuation of the fixed assignment.
\<close>

theorem optimize_empty_decision_set_raises:
  assumes "decision_keys opt_flags = Inr []"
  shows "optimize core enforce_money user_values opt_flags = Inl ValueError"
  using assms by (simp add: optimize_def minimize_def)

theorem optimize_empty_decision_set_raises_witness:
  "decision_keys unchecked_opt_flags = Inr []
   \<and> optimize (\<lambda>fun0 x0 bounds cons. Inr \<lparr> success = True, res_x = x0 \<rparr>) False
        default_user_values unchecked_opt_flags = Inl ValueError"
  using optimize_empty_decision_set_raises [OF decision_keys_unchecked] decision_keys_unchecked
  by blast

section \<open>Properties of the sensitivity sweep\<close>

lemma length_linspace: "length (linspace a b n) = n"
  by (simp add: linspace_def Let_def)

lemma linspace_nth:
  assumes "i < n" and "1 < n"
  shows "linspace a b n ! i = a + real i * ((b - a) / real (n - 1))"
proof (cases "i = n - 1")
  case True
  with assms show ?thesis by (simp add: linspace_def Let_def)
next
  case False
  with assms show ?thesis by (simp add: linspace_def Let_def)
qed

lemma linspace_first: "1 < n \<Longrightarrow> linspace a b n ! 0 = a"
  by (simp add: linspace_def Let_def nth_list_update)

lemma linspace_last: "1 < n \<Longrightarrow> linspace a b n ! (n - 1) = b"
  by (simp add: linspace_def Let_def)

lemma data_rows_complete:
  assumes "complete user_values"
  shows "\<exists>rows. data_rows user_values k steps = Inr rows
    \<and> list_all2 (\<lambda>v row. fst row = v
        \<and> (\<exists>out. calculate_model (user_values(k \<mapsto> v)) = Inr out \<and> snd row = npv out))
        steps rows"
proof (induction steps)
  case Nil
  show ?case by simp
next
  case (Cons v steps)
  then obtain rows where r: "data_rows user_values k steps = Inr rows"
    and a: "list_all2 (\<lambda>v row. fst row = v
        \<and> (\<exists>out. calculate_model (user_values(k \<mapsto> v)) = Inr out \<and> snd row = npv out))
        steps rows" by blast
  from calculate_model_total [OF complete_upd [OF assms]]
  obtain out where o: "calculate_model (user_values(k \<mapsto> v)) = Inr out" by blast
  have "data_rows user_values k (v # steps) = Inr ((v, npv out) # rows)"
    using r o by (simp del: fun_upd_apply)
  then show ?case using a o by (simp del: fun_upd_apply)
qed

lemma sweep_key_complete:
  assumes "complete user_values" and "opt_flags k = Some fl"
  shows "\<exists>rows. sweep_key user_values opt_flags k = Inr rows
    \<and> length rows = 20
    \<and> fst (rows ! 0) = min_v fl \<and> fst (rows ! 19) = max_v fl
    \<and> (\<forall>i<20. fst (rows ! i) = min_v fl + real i * ((max_v fl - min_v fl) / 19)
          \<and> (\<exists>out. calculate_model (user_values(k \<mapsto> fst (rows ! i))) = Inr out
                \<and> snd (rows ! i) = npv out))"
proof -
  let ?steps = "linspace (min_v fl) (max_v fl) 20"
  from data_rows_complete [OF assms(1), of k ?steps]
  obtain rows where r: "data_rows user_values k ?steps = Inr rows"
    and a: "list_all2 (\<lambda>v row. fst row = v
        \<and> (\<exists>out. calculate_model (user_values(k \<mapsto> v)) = Inr out \<and> snd row = npv out))
        ?steps rows" by blast
  have len: "length rows = 20"
    using list_all2_lengthD [OF a] by (simp add: length_linspace)
  have nth: "\<And>i. i < 20 \<Longrightarrow> fst (rows ! i) = ?steps ! i
      \<and> (\<exists>out. calculate_model (user_values(k \<mapsto> fst (rows ! i))) = Inr out
            \<and> snd (rows ! i) = npv out)"
    using list_all2_nthD [OF a] by (simp add: length_linspace del: fun_upd_apply)
  have st: "\<And>i. i < 20 \<Longrightarrow> ?steps ! i = min_v fl + real i * ((max_v fl - min_v fl) / 19)"
    using linspace_nth [of _ 20 "min_v fl" "max_v fl"] by simp
  have first: "fst (rows ! 0) = min_v fl"
    using nth [of 0] linspace_first [of 20 "min_v fl" "max_v fl"] by simp
  have last: "fst (rows ! 19) = max_v fl"
    using nth [of 19] linspace_last [of 20 "min_v fl" "max_v fl"] by simp
  have sk: "sweep_key user_values opt_flags k = Inr rows"
    using assms(2) r by (simp add: sweep_key_def Let_def)
  have every: "\<forall>i<20. fst (rows ! i) = min_v fl + real i * ((max_v fl - min_v fl) / 19)
          \<and> (\<exists>out. calculate_model (user_values(k \<mapsto> fst (rows ! i))) = Inr out
                \<and> snd (rows ! i) = npv out)"
  proof (intro allI impI)
    fix i :: nat
    assume lt: "i < 20"
    from nth [OF lt] have a: "fst (rows ! i) = ?steps ! i"
      and b: "\<exists>out. calculate_model (user_values(k \<mapsto> fst (rows ! i))) = Inr out
                \<and> snd (rows ! i) = npv out" by blast+
    from a st [OF lt]
    have "fst (rows ! i) = min_v fl + real i * ((max_v fl - min_v fl) / 19)"
      by (rule trans)
    then show "fst (rows ! i) = min_v fl + real i * ((max_v fl - min_v fl) / 19)
          \<and> (\<exists>out. calculate_model (user_values(k \<mapsto> fst (rows ! i))) = Inr out
                \<and> snd (rows ! i) = npv out)"
      using b by blast
  qed
  show ?thesis using sk len first last every by blast
qed

lemma charts_complete:
  assumes "complete user_values" and "\<forall>k \<in> set dks. opt_flags k \<noteq> None"
  shows "\<exists>cs. charts user_values opt_flags dks = Inr cs \<and> map fst cs = dks
    \<and> (\<forall>(k, rows) \<in> set cs. sweep_key user_values opt_flags k = Inr rows)"
  using assms(2)
proof (induction dks)
  case Nil
  show ?case by simp
next
  case (Cons k dks)
  then obtain cs where c: "charts user_values opt_flags dks = Inr cs" "map fst cs = dks"
    "\<forall>(k, rows) \<in> set cs. sweep_key user_values opt_flags k = Inr rows"
    by auto
  from Cons.prems obtain fl where f: "opt_flags k = Some fl" by auto
  from sweep_key_complete [where opt_flags = opt_flags and k = k, OF assms(1) f]
  obtain rows where "sweep_key user_values opt_flags k = Inr rows" by blast
  then show ?case using c by simp
qed

lemma default_opt_flags_electricity:
  "default_opt_flags ''electricity_cost'' = Some \<lparr> min_v = 1, max_v = 700, in_opt = True \<rparr>"
  by (simp add: default_opt_flags_def read_inputs_def parameters_def read_row_def
      initial_widgets_def)

text \<open>
  C6. For a complete \<^verbatim>\<open>user_values\<close> and a non-empty list of decision keys that all
  have an entry in \<^verbatim>\<open>opt_flags\<close>, the sweep returns one chart per key, in order. Each
  chart has exactly 20 rows; row \<open>i\<close> holds the sample
  \<open>min + i * (max - min) / 19\<close>, so the first sample is the key's \<open>min\<close> and the last
  its \<open>max\<close>; and beside each sample stands the NPV of \<^verbatim>\<open>calculate_model\<close> on
  \<^verbatim>\<open>user_values\<close> with that single key set to the sample.
\<close>

theorem sweep_samples:
  assumes "complete user_values" and "dks \<noteq> []"
    and "\<forall>k \<in> set dks. opt_flags k \<noteq> None"
  shows "\<exists>cs. sweep user_values opt_flags dks = Inr (Charts cs) \<and> map fst cs = dks
    \<and> (\<forall>(k, rows) \<in> set cs. \<exists>fl. opt_flags k = Some fl
        \<and> length rows = 20
        \<and> fst (rows ! 0) = min_v fl \<and> fst (rows ! 19) = max_v fl
        \<and> (\<forall>i<20. fst (rows ! i) = min_v fl + real i * ((max_v fl - min_v fl) / 19)
              \<and> (\<exists>out. calculate_model (user_values(k \<mapsto> fst (rows ! i))) = Inr out
                    \<and> snd (rows ! i) = npv out)))"
proof -
  from charts_complete [OF assms(1,3)]
  obtain cs where c: "charts user_values opt_flags dks = Inr cs" "map fst cs = dks"
    and sk: "\<forall>(k, rows) \<in> set cs. sweep_key user_values opt_flags k = Inr rows"
    by blast
  have sw: "sweep user_values opt_flags dks = Inr (Charts cs)"
    using assms(2) c(1) by (simp add: sweep_def)
  have "\<exists>fl. opt_flags k = Some fl
        \<and> length rows = 20
        \<and> fst (rows ! 0) = min_v fl \<and> fst (rows ! 19) = max_v fl
        \<and> (\<forall>i<20. fst (rows ! i) = min_v fl + real i * ((max_v fl - min_v fl) / 19)
              \<and> (\<exists>out. calculate_model (user_values(k \<mapsto> fst (rows ! i))) = Inr out
                    \<and> snd (rows ! i) = npv out))"
    if m: "(k, rows) \<in> set cs" for k rows
  proof -
    from m have "k \<in> set (map fst cs)" by force
    with c(2) assms(3) obtain fl where f: "opt_flags k = Some fl" by auto
    from m sk have "sweep_key user_values opt_flags k = Inr rows" by auto
    with sweep_key_complete [where opt_flags = opt_flags and k = k, OF assms(1) f] f
    show ?thesis by auto
  qed
  then show ?thesis using sw c(2) by blast
qed

theorem sweep_samples_witness:
  "complete default_user_values \<and> [''electricity_cost''] \<noteq> []
   \<and> default_opt_flags ''electricity_cost''
        = Some \<lparr> min_v = 1, max_v = 700, in_opt = True \<rparr>
   \<and> (\<exists>rows. sweep default_user_values default_opt_flags [''electricity_cost'']
          = Inr (Charts [(''electricity_cost'', rows)])
        \<and> length rows = 20 \<and> fst (rows ! 0) = 1 \<and> fst (rows ! 19) = 700)"
proof -
  have c: "complete default_user_values" by (rule complete_default)
  have n: "[''electricity_cost''] \<noteq> []" by simp
  have f: "\<forall>k \<in> set [''electricity_cost'']. default_opt_flags k \<noteq> None"
    by (simp add: default_opt_flags_electricity)
  from sweep_samples [OF c n f] obtain cs where
    every: "sweep default_user_values default_opt_flags [''electricity_cost''] = Inr (Charts cs)
      \<and> map fst cs = [''electricity_cost'']
      \<and> (\<forall>(k, rows) \<in> set cs. \<exists>fl. default_opt_flags k = Some fl
        \<and> length rows = 20
        \<and> fst (rows ! 0) = min_v fl \<and> fst (rows ! 19) = max_v fl
        \<and> (\<forall>i<20. fst (rows ! i) = min_v fl + real i * ((max_v fl - min_v fl) / 19)
              \<and> (\<exists>out. calculate_model (default_user_values(k \<mapsto> fst (rows ! i))) = Inr out
                    \<and> snd (rows ! i) = npv out)))" ..
  note sw = every [THEN conjunct1]
  note ks = every [THEN conjunct2, THEN conjunct1]
  note rs = every [THEN conjunct2, THEN conjunct2]
  from ks obtain rows where cs: "cs = [(''electricity_cost'', rows)]"
    by (cases cs) auto
  from rs cs obtain fl where "default_opt_flags ''electricity_cost'' = Some fl"
    and "length rows = 20" and "fst (rows ! 0) = min_v fl" and "fst (rows ! 19) = max_v fl"
    by auto
  then have "length rows = 20 \<and> fst (rows ! 0) = 1 \<and> fst (rows ! 19) = 700"
    by (auto simp: default_opt_flags_electricity)
  then show ?thesis using c n default_opt_flags_electricity sw cs by blast
qed

end
